theory Spec2Isabelle
  imports Complex_Main
begin

text \<open>
  A shallow embedding of the collision core of script.js: the class \<^verbatim>\<open>Vector\<close>, the two
  ray casts, the class \<^verbatim>\<open>Shape\<close> with its subclasses \<^verbatim>\<open>Circle\<close>, \<^verbatim>\<open>RoundRect\<close> and
  \<^verbatim>\<open>AABB\<close>, and the solver methods of \<^verbatim>\<open>Shape\<close>. Drawing and the mouse handlers are
  left out.

  script.js holds the program twice. The definitions below are those of the first copy
  (lines 1 to 634), the one with the ray casts as free functions and with a Minkowski
  sum in all three subclasses. The second copy (from line 635) is a less complete state
  of the same classes: its \<^verbatim>\<open>contains\<close> and \<^verbatim>\<open>closestPoint\<close> methods and the overlap
  branch of its \<^verbatim>\<open>solveCollisions\<close> are the same text, its \<^verbatim>\<open>RoundRect.rayCast\<close> has an
  empty body, its \<^verbatim>\<open>sum\<close> methods cover fewer pairs, and its \<^verbatim>\<open>solveCollisions\<close> casts
  the relative motion against \<^verbatim>\<open>this\<close> and then assigns
  \<^verbatim>\<open>Vector.dot(this.velocity, tangent) * tangent\<close>, a number times an object, which is
  the number NaN and not a vector.
\<close>

section \<open>Numbers\<close>

text \<open>
  Every number of script.js is a JavaScript Number. The model keeps the special values
  of that type apart from the finite ones: \<open>Fin r\<close> is a finite number, \<open>PInf\<close> is
  \<^verbatim>\<open>Number.POSITIVE_INFINITY\<close>, \<open>NInf\<close> its negation and \<open>NaN\<close> the value of an
  undefined operation such as \<^verbatim>\<open>0 / 0\<close> or \<^verbatim>\<open>0 * Infinity\<close>.

  Arithmetic on finite numbers is exact arithmetic on the reals: rounding and overflow
  are not modelled, and there is one zero (script.js never divides by a negative zero:
  its only unguarded divisors are lengths, which are square roots). The special values
  combine as they do in JavaScript.
\<close>

datatype num = Fin real | PInf | NInf | NaN

instantiation num :: "{uminus, plus, times, ord}"
begin

fun uminus_num :: "num \<Rightarrow> num" where
  "uminus_num (Fin a) = Fin (- a)"
| "uminus_num PInf = NInf"
| "uminus_num NInf = PInf"
| "uminus_num NaN = NaN"

fun plus_num :: "num \<Rightarrow> num \<Rightarrow> num" where
  "plus_num (Fin a) (Fin b) = Fin (a + b)"
| "plus_num NaN _ = NaN"
| "plus_num _ NaN = NaN"
| "plus_num PInf NInf = NaN"
| "plus_num NInf PInf = NaN"
| "plus_num PInf _ = PInf"
| "plus_num _ PInf = PInf"
| "plus_num NInf _ = NInf"
| "plus_num _ NInf = NInf"

fun times_num :: "num \<Rightarrow> num \<Rightarrow> num" where
  "times_num (Fin a) (Fin b) = Fin (a * b)"
| "times_num NaN _ = NaN"
| "times_num _ NaN = NaN"
| "times_num PInf (Fin b) = (if b = 0 then NaN else if 0 < b then PInf else NInf)"
| "times_num NInf (Fin b) = (if b = 0 then NaN else if 0 < b then NInf else PInf)"
| "times_num (Fin a) PInf = (if a = 0 then NaN else if 0 < a then PInf else NInf)"
| "times_num (Fin a) NInf = (if a = 0 then NaN else if 0 < a then NInf else PInf)"
| "times_num PInf PInf = PInf"
| "times_num PInf NInf = NInf"
| "times_num NInf PInf = NInf"
| "times_num NInf NInf = PInf"

text \<open>The comparisons \<^verbatim>\<open><\<close> and \<^verbatim>\<open><=\<close>: false as soon as one side is NaN.\<close>

fun less_num :: "num \<Rightarrow> num \<Rightarrow> bool" where
  "less_num (Fin a) (Fin b) = (a < b)"
| "less_num NaN _ = False"
| "less_num _ NaN = False"
| "less_num _ NInf = False"
| "less_num PInf _ = False"
| "less_num NInf _ = True"
| "less_num _ PInf = True"

fun less_eq_num :: "num \<Rightarrow> num \<Rightarrow> bool" where
  "less_eq_num (Fin a) (Fin b) = (a \<le> b)"
| "less_eq_num NaN _ = False"
| "less_eq_num _ NaN = False"
| "less_eq_num NInf _ = True"
| "less_eq_num _ PInf = True"
| "less_eq_num _ NInf = False"
| "less_eq_num PInf _ = False"

instance ..

end

instantiation num :: "{minus, inverse}"
begin

definition minus_num :: "num \<Rightarrow> num \<Rightarrow> num" where
  "minus_num a b = a + (- b)"

fun divide_num :: "num \<Rightarrow> num \<Rightarrow> num" where
  "divide_num (Fin a) (Fin b) =
     (if b = 0 then (if a = 0 then NaN else if 0 < a then PInf else NInf)
      else Fin (a / b))"
| "divide_num NaN _ = NaN"
| "divide_num _ NaN = NaN"
| "divide_num (Fin a) PInf = Fin 0"
| "divide_num (Fin a) NInf = Fin 0"
| "divide_num PInf (Fin b) = (if b < 0 then NInf else PInf)"
| "divide_num NInf (Fin b) = (if b < 0 then PInf else NInf)"
| "divide_num PInf PInf = NaN"
| "divide_num PInf NInf = NaN"
| "divide_num NInf PInf = NaN"
| "divide_num NInf NInf = NaN"

fun inverse_num :: "num \<Rightarrow> num" where
  "inverse_num (Fin b) = (if b = 0 then PInf else Fin (1 / b))"
| "inverse_num PInf = Fin 0"
| "inverse_num NInf = Fin 0"
| "inverse_num NaN = NaN"

instance ..

end

text \<open>The comparison \<^verbatim>\<open>==\<close> on numbers: NaN equals nothing, itself included.\<close>

definition js_eq :: "num \<Rightarrow> num \<Rightarrow> bool" where
  "js_eq a b = (a \<noteq> NaN \<and> a = b)"

fun Math_sqrt :: "num \<Rightarrow> num" where
  "Math_sqrt (Fin a) = (if a < 0 then NaN else Fin (sqrt a))"
| "Math_sqrt PInf = PInf"
| "Math_sqrt NInf = NaN"
| "Math_sqrt NaN = NaN"

fun Math_abs :: "num \<Rightarrow> num" where
  "Math_abs (Fin a) = Fin \<bar>a\<bar>"
| "Math_abs PInf = PInf"
| "Math_abs NInf = PInf"
| "Math_abs NaN = NaN"

definition Math_min :: "num \<Rightarrow> num \<Rightarrow> num" where
  "Math_min a b = (if a = NaN \<or> b = NaN then NaN else if a \<le> b then a else b)"

definition Math_max :: "num \<Rightarrow> num \<Rightarrow> num" where
  "Math_max a b = (if a = NaN \<or> b = NaN then NaN else if a \<le> b then b else a)"

text \<open>\<^verbatim>\<open>Number.EPSILON\<close> is \<open>2\<^sup>-\<^sup>5\<^sup>2\<close>.\<close>

definition EPSILON :: num where
  "EPSILON = Fin (1 / 2 ^ 52)"

section \<open>Vectors\<close>

text \<open>
  \<^verbatim>\<open>class Vector\<close>: the fields \<^verbatim>\<open>x\<close> and \<^verbatim>\<open>y\<close> are the selectors \<open>vx\<close> and \<open>vy\<close>;
  \<^verbatim>\<open>new Vector(a, b)\<close> is \<open>Vector a b\<close>. The getter \<^verbatim>\<open>length\<close> is \<open>Vector_length\<close>.
\<close>

datatype Vector = Vector (vx: num) (vy: num)

definition Vector_add :: "Vector \<Rightarrow> Vector \<Rightarrow> Vector" where
  "Vector_add a b = Vector (vx a + vx b) (vy a + vy b)"

definition Vector_sub :: "Vector \<Rightarrow> Vector \<Rightarrow> Vector" where
  "Vector_sub a b = Vector (vx a - vx b) (vy a - vy b)"

definition Vector_mul :: "Vector \<Rightarrow> num \<Rightarrow> Vector" where
  "Vector_mul v scalar = Vector (vx v * scalar) (vy v * scalar)"

definition Vector_dot :: "Vector \<Rightarrow> Vector \<Rightarrow> num" where
  "Vector_dot a b = vx a * vx b + vy a * vy b"

definition Vector_cross :: "Vector \<Rightarrow> Vector \<Rightarrow> num" where
  "Vector_cross a b = vx a * vy b - vy a * vx b"

definition Vector_min :: "Vector \<Rightarrow> Vector \<Rightarrow> Vector" where
  "Vector_min a b = Vector (Math_min (vx a) (vx b)) (Math_min (vy a) (vy b))"

definition Vector_max :: "Vector \<Rightarrow> Vector \<Rightarrow> Vector" where
  "Vector_max a b = Vector (Math_max (vx a) (vx b)) (Math_max (vy a) (vy b))"

definition Vector_abs :: "Vector \<Rightarrow> Vector" where
  "Vector_abs v = Vector (Math_abs (vx v)) (Math_abs (vy v))"

definition Vector_length :: "Vector \<Rightarrow> num" where
  "Vector_length v = Math_sqrt (Vector_dot v v)"

definition normalized :: "Vector \<Rightarrow> Vector" where
  "normalized v = Vector_mul v (Fin 1 / Vector_length v)"

definition tangent :: "Vector \<Rightarrow> Vector" where
  "tangent v = Vector (- vy v) (vx v)"

definition ZERO :: Vector where
  "ZERO = Vector (Fin 0) (Fin 0)"

section \<open>Ray casts\<close>

text \<open>
  \<^verbatim>\<open>rayCastEdge(originA, endA, originB, endB)\<close>, the segment against segment cast that
  the specification calls rayCastSegment.
\<close>

definition rayCastEdge :: "Vector \<Rightarrow> Vector \<Rightarrow> Vector \<Rightarrow> Vector \<Rightarrow> num" where
  "rayCastEdge originA endA originB endB =
     (let r = Vector_sub endA originA;
          s = Vector_sub endB originB;
          det = Vector_cross r s
      in if js_eq det (Fin 0) then PInf
         else
           let dir = Vector_sub originB originA;
               t1 = Vector_cross dir s / det
           in if Fin 0 > t1 \<or> t1 > Fin 1 then PInf
              else
                let t2 = Vector_cross dir r / det
                in if Fin 0 > t2 \<or> t2 > Fin 1 then PInf
                   else t1)"

text \<open>\<^verbatim>\<open>rayCastCircle(origin, direction, center, radius)\<close>.\<close>

definition rayCastCircle :: "Vector \<Rightarrow> Vector \<Rightarrow> Vector \<Rightarrow> num \<Rightarrow> num" where
  "rayCastCircle origin direction center radius =
     (let a = Vector_dot direction direction;
          centerToOrigin = Vector_sub origin center;
          b = Fin 2 * Vector_dot direction centerToOrigin;
          c = Vector_dot centerToOrigin centerToOrigin - radius * radius;
          det = b * b - Fin 4 * a * c
      in if a \<le> EPSILON \<or> det < Fin 0 then PInf
         else if js_eq det (Fin 0) then
           (let t = (- b) / (Fin 2 * a)
            in if t \<ge> Fin 0 \<and> t \<le> Fin 1 then t else PInf)
         else
           (let t1 = (- b + Math_sqrt det) / (Fin 2 * a);
                t2 = (- b - Math_sqrt det) / (Fin 2 * a)
            in if t1 \<ge> Fin 0 \<and> t1 \<le> Fin 1 then
                 (if t2 \<ge> Fin 0 \<and> t2 \<le> Fin 1 then Math_min t1 t2 else t1)
               else if t2 \<ge> Fin 0 \<and> t2 \<le> Fin 1 then t2
               else PInf))"

section \<open>Shapes\<close>

text \<open>
  \<^verbatim>\<open>class Shape\<close> and its three subclasses. A shape object is a value of the datatype:
  the constructor is its class, the selectors are its fields and the discriminators
  \<open>is_Circle\<close>, \<open>is_RoundRect\<close> and \<open>is_AABB\<close> are the \<^verbatim>\<open>instanceof\<close> tests. Each \<^verbatim>\<open>new\<close> goes
  through the constructor of \<^verbatim>\<open>Shape\<close>, which sets the velocity to a copy of
  \<^verbatim>\<open>Vector.ZERO\<close>.
\<close>

datatype Shape =
    is_Circle: Circle (center: Vector) (velocity: Vector) (radius: num)
  | is_RoundRect: RoundRect (center: Vector) (velocity: Vector) (hw: num) (hh: num) (radius: num)
  | is_AABB: AABB (center: Vector) (velocity: Vector) (hw: num) (hh: num)

definition new_Circle :: "Vector \<Rightarrow> num \<Rightarrow> Shape" where
  "new_Circle c r = Circle c ZERO r"

definition new_RoundRect :: "Vector \<Rightarrow> num \<Rightarrow> num \<Rightarrow> num \<Rightarrow> Shape" where
  "new_RoundRect c w h r = RoundRect c ZERO w h r"

definition new_AABB :: "Vector \<Rightarrow> num \<Rightarrow> num \<Rightarrow> Shape" where
  "new_AABB c w h = AABB c ZERO w h"

text \<open>\<^verbatim>\<open>this.constructor.name\<close>.\<close>

fun constructor_name :: "Shape \<Rightarrow> string" where
  "constructor_name (Circle _ _ _) = ''Circle''"
| "constructor_name (RoundRect _ _ _ _ _) = ''RoundRect''"
| "constructor_name (AABB _ _ _ _) = ''AABB''"

text \<open>The assignments \<^verbatim>\<open>this.center = c\<close> and \<^verbatim>\<open>this.velocity = v\<close>.\<close>

fun set_center :: "Shape \<Rightarrow> Vector \<Rightarrow> Shape" where
  "set_center (Circle _ v r) c = Circle c v r"
| "set_center (RoundRect _ v w h r) c = RoundRect c v w h r"
| "set_center (AABB _ v w h) c = AABB c v w h"

fun set_velocity :: "Shape \<Rightarrow> Vector \<Rightarrow> Shape" where
  "set_velocity (Circle c _ r) v = Circle c v r"
| "set_velocity (RoundRect c _ w h r) v = RoundRect c v w h r"
| "set_velocity (AABB c _ w h) v = AABB c v w h"

definition setLinearVelocity :: "Shape \<Rightarrow> Vector \<Rightarrow> Shape" where
  "setLinearVelocity this v = set_velocity this v"

definition update :: "Shape \<Rightarrow> num \<Rightarrow> Shape" where
  "update this dt = set_center this (Vector_add (center this) (Vector_mul (velocity this) dt))"

text \<open>
  The getters of \<^verbatim>\<open>RoundRect\<close> and \<^verbatim>\<open>AABB\<close>. The getter \<^verbatim>\<open>top\<close> is \<open>top_shape\<close> and
  the method \<^verbatim>\<open>sum\<close> is \<open>sum_shape\<close>, since \<open>top\<close> and \<open>sum\<close> are constants of HOL.
\<close>

definition left :: "Shape \<Rightarrow> num" where
  "left this = vx (center this) - hw this"

definition top_shape :: "Shape \<Rightarrow> num" where
  "top_shape this = vy (center this) - hh this"

definition right :: "Shape \<Rightarrow> num" where
  "right this = vx (center this) + hw this"

definition bottom :: "Shape \<Rightarrow> num" where
  "bottom this = vy (center this) + hh this"

definition leftTop :: "Shape \<Rightarrow> Vector" where
  "leftTop this = Vector (left this) (top_shape this)"

definition leftBottom :: "Shape \<Rightarrow> Vector" where
  "leftBottom this = Vector (left this) (bottom this)"

definition rightTop :: "Shape \<Rightarrow> Vector" where
  "rightTop this = Vector (right this) (top_shape this)"

definition rightBottom :: "Shape \<Rightarrow> Vector" where
  "rightBottom this = Vector (right this) (bottom this)"

subsection \<open>contains\<close>

definition Circle_contains :: "Shape \<Rightarrow> Vector \<Rightarrow> bool" where
  "Circle_contains this p = (Vector_length (Vector_sub p (center this)) < radius this)"

definition RoundRect_contains :: "Shape \<Rightarrow> Vector \<Rightarrow> bool" where
  "RoundRect_contains this p0 =
     (let p = Vector_sub p0 (center this);
          q = Vector_add (Vector_abs p)
                (Vector (- hw this + radius this) (- hh this + radius this));
          t = Math_min (Math_max (vx q) (vy q)) (Fin 0)
              + Vector_length (Vector_max q ZERO) - radius this
      in t \<le> Fin 0)"

definition AABB_contains :: "Shape \<Rightarrow> Vector \<Rightarrow> bool" where
  "AABB_contains this p =
     (left this \<le> vx p \<and> right this \<ge> vx p \<and> top_shape this \<le> vy p \<and> bottom this \<ge> vy p)"

fun contains :: "Shape \<Rightarrow> Vector \<Rightarrow> bool" where
  "contains (Circle c v r) p = Circle_contains (Circle c v r) p"
| "contains (RoundRect c v w h r) p = RoundRect_contains (RoundRect c v w h r) p"
| "contains (AABB c v w h) p = AABB_contains (AABB c v w h) p"

subsection \<open>closestPoint\<close>

definition Circle_closestPoint :: "Shape \<Rightarrow> Vector \<Rightarrow> Vector" where
  "Circle_closestPoint this p =
     (let v = Vector_sub p (center this)
      in Vector_add (center this) (Vector_mul v (radius this / Vector_length v)))"

text \<open>
  \<^verbatim>\<open>RoundRect.closestPoint\<close> assigns to \<^verbatim>\<open>minDist\<close> and to the fields of \<^verbatim>\<open>c\<close> in two
  \<^verbatim>\<open>if\<close> statements in a row; the pair \<open>(minDist, c)\<close> is threaded through them.
\<close>

definition RoundRect_closestPoint :: "Shape \<Rightarrow> Vector \<Rightarrow> Vector" where
  "RoundRect_closestPoint this p =
     (let v = Vector_sub p (center this);
          q = Vector_abs v;
          minDist = PInf;
          c = p;
          r = Vector (hw this - radius this) (hh this - radius this)
      in if vx q > vx r \<and> vy q > vy r then
           (let w = Vector_sub q r;
                w = Vector_add r (Vector_mul w (radius this / Vector_length w))
            in Vector (vx (center this) + (if vx v > Fin 0 then vx w else - vx w))
                      (vy (center this) + (if vy v > Fin 0 then vy w else - vy w)))
         else
           (let (minDist, c) =
                  (if vx q \<le> vx r
                   then (Math_abs (vx q - hh this),
                         Vector (vx p) (if vy v > Fin 0 then bottom this else top_shape this))
                   else (minDist, c));
                (minDist, c) =
                  (if vy q < vy r \<and> Math_abs (vy q - hw this) < minDist
                   then (Math_abs (vy q - hh this),
                         Vector (if vx v > Fin 0 then right this else left this) (vy p))
                   else (minDist, c))
            in c))"

text \<open>
  \<^verbatim>\<open>AABB.closestPoint\<close>: three \<^verbatim>\<open>if\<close> statements in a row update \<^verbatim>\<open>minDist\<close>, \<^verbatim>\<open>x\<close>
  and \<^verbatim>\<open>y\<close>.
\<close>

definition AABB_closestPoint :: "Shape \<Rightarrow> Vector \<Rightarrow> Vector" where
  "AABB_closestPoint this p =
     (let minDist = Math_abs (vx p - left this);
          x = left this;
          y = vy p;
          (minDist, x) =
            (if Math_abs (right this - vx p) < minDist
             then (Math_abs (right this - vx p), right this)
             else (minDist, x));
          (minDist, x, y) =
            (if Math_abs (bottom this - vy p) < minDist
             then (Math_abs (bottom this - vy p), vx p, bottom this)
             else (minDist, x, y));
          (minDist, x, y) =
            (if Math_abs (top_shape this - vy p) < minDist
             then (Math_abs (top_shape this - vy p), vx p, top_shape this)
             else (minDist, x, y))
      in Vector x y)"

fun closestPoint :: "Shape \<Rightarrow> Vector \<Rightarrow> Vector" where
  "closestPoint (Circle c v r) p = Circle_closestPoint (Circle c v r) p"
| "closestPoint (RoundRect c v w h r) p = RoundRect_closestPoint (RoundRect c v w h r) p"
| "closestPoint (AABB c v w h) p = AABB_closestPoint (AABB c v w h) p"

subsection \<open>rayCast\<close>

text \<open>The statement \<^verbatim>\<open>if (t < minT) { minT = t }\<close>.\<close>

definition keep_min :: "num \<Rightarrow> num \<Rightarrow> num" where
  "keep_min minT t = (if t < minT then t else minT)"

definition Circle_rayCast :: "Shape \<Rightarrow> Vector \<Rightarrow> Vector \<Rightarrow> num" where
  "Circle_rayCast this origin direction =
     rayCastCircle origin direction (center this) (radius this)"

definition RoundRect_rayCast :: "Shape \<Rightarrow> Vector \<Rightarrow> Vector \<Rightarrow> num" where
  "RoundRect_rayCast this origin direction =
     (let end = Vector_add origin direction;
          minT = rayCastEdge origin end
                   (Vector (left this) (top_shape this + radius this))
                   (Vector (left this) (bottom this - radius this));
          t = rayCastEdge origin end
                   (Vector (left this + radius this) (bottom this))
                   (Vector (right this - radius this) (bottom this));
          minT = keep_min minT t;
          t = rayCastEdge origin end
                   (Vector (right this) (top_shape this + radius this))
                   (Vector (right this) (bottom this - radius this));
          minT = keep_min minT t;
          t = rayCastEdge origin end
                   (Vector (left this + radius this) (top_shape this))
                   (Vector (right this - radius this) (top_shape this));
          minT = keep_min minT t;
          t = rayCastCircle origin direction
                   (Vector (left this + radius this) (top_shape this + radius this)) (radius this);
          minT = keep_min minT t;
          t = rayCastCircle origin direction
                   (Vector (right this - radius this) (top_shape this + radius this)) (radius this);
          minT = keep_min minT t;
          t = rayCastCircle origin direction
                   (Vector (right this - radius this) (bottom this - radius this)) (radius this);
          minT = keep_min minT t;
          t = rayCastCircle origin direction
                   (Vector (left this + radius this) (bottom this - radius this)) (radius this);
          minT = keep_min minT t
      in minT)"

definition AABB_rayCast :: "Shape \<Rightarrow> Vector \<Rightarrow> Vector \<Rightarrow> num" where
  "AABB_rayCast this origin direction =
     (let end = Vector_add origin direction;
          minT = rayCastEdge origin end (leftTop this) (leftBottom this);
          t = rayCastEdge origin end (leftBottom this) (rightBottom this);
          minT = keep_min minT t;
          t = rayCastEdge origin end (rightBottom this) (rightTop this);
          minT = keep_min minT t;
          t = rayCastEdge origin end (rightTop this) (leftTop this);
          minT = keep_min minT t
      in minT)"

fun rayCast :: "Shape \<Rightarrow> Vector \<Rightarrow> Vector \<Rightarrow> num" where
  "rayCast (Circle c v r) origin direction = Circle_rayCast (Circle c v r) origin direction"
| "rayCast (RoundRect c v w h r) origin direction =
     RoundRect_rayCast (RoundRect c v w h r) origin direction"
| "rayCast (AABB c v w h) origin direction = AABB_rayCast (AABB c v w h) origin direction"

subsection \<open>sum\<close>

text \<open>
  \<^verbatim>\<open>sum\<close> returns a new shape or throws a string; the thrown string is the \<open>Inl\<close> of
  the result. Each method tests \<^verbatim>\<open>other instanceof\<close> in its own order. In \<^verbatim>\<open>Circle.sum\<close>
  and \<^verbatim>\<open>AABB.sum\<close> the three tests cover every shape, so their final \<^verbatim>\<open>throw\<close> is never
  reached for a shape argument; in \<^verbatim>\<open>RoundRect.sum\<close> it is reached for a \<^verbatim>\<open>RoundRect\<close>.
\<close>

definition sum_not_implemented :: "Shape \<Rightarrow> Shape \<Rightarrow> string" where
  "sum_not_implemented this other =
     ''sum is not implemented for '' @ constructor_name this @ '' and ''
       @ constructor_name other"

fun Circle_sum :: "Shape \<Rightarrow> Shape \<Rightarrow> string + Shape" where
  "Circle_sum this (Circle c v r) =
     Inr (new_Circle (Vector_sub (center this) c) (radius this + r))"
| "Circle_sum this (AABB c v w h) =
     Inr (new_RoundRect (Vector_sub (center this) c)
            (radius this + w) (radius this + h) (radius this))"
| "Circle_sum this (RoundRect c v w h r) =
     Inr (new_RoundRect (Vector_sub (center this) c)
            (radius this + w) (radius this + h) (radius this + r))"

fun RoundRect_sum :: "Shape \<Rightarrow> Shape \<Rightarrow> string + Shape" where
  "RoundRect_sum this (AABB c v w h) =
     Inr (new_RoundRect (Vector_sub (center this) c)
            (hw this + w) (hh this + h) (radius this))"
| "RoundRect_sum this (Circle c v r) =
     Inr (new_RoundRect (Vector_sub (center this) c)
            (hw this + r) (hh this + r) (radius this + r))"
| "RoundRect_sum this (RoundRect c v w h r) =
     Inl (sum_not_implemented this (RoundRect c v w h r))"

fun AABB_sum :: "Shape \<Rightarrow> Shape \<Rightarrow> string + Shape" where
  "AABB_sum this (AABB c v w h) =
     Inr (new_AABB (Vector_sub (center this) c) (hw this + w) (hh this + h))"
| "AABB_sum this (Circle c v r) =
     Inr (new_RoundRect (Vector_sub (center this) c) (r + hw this) (r + hh this) r)"
| "AABB_sum this (RoundRect c v w h r) =
     Inr (new_RoundRect (Vector_sub (center this) c) (hw this + w) (hh this + h) r)"

fun sum_shape :: "Shape \<Rightarrow> Shape \<Rightarrow> string + Shape" where
  "sum_shape (Circle c v r) other = Circle_sum (Circle c v r) other"
| "sum_shape (RoundRect c v w h r) other = RoundRect_sum (RoundRect c v w h r) other"
| "sum_shape (AABB c v w h) other = AABB_sum (AABB c v w h) other"

section \<open>The collision solver\<close>

text \<open>
  The methods of \<^verbatim>\<open>Shape\<close> that every subclass inherits. An exception thrown by \<^verbatim>\<open>sum\<close>
  is not caught by any of them, so it is their result. \<^verbatim>\<open>solveCollisions\<close> assigns to
  fields of \<^verbatim>\<open>this\<close> and of \<^verbatim>\<open>other\<close>, two distinct objects; the model returns the pair
  of the updated shapes. Its calls of \<^verbatim>\<open>ctx.fillText\<close> draw diagnostics on the canvas and
  are left out.
\<close>

definition intersects :: "Shape \<Rightarrow> Shape \<Rightarrow> string + bool" where
  "intersects this other =
     (case sum_shape this other of
        Inl e \<Rightarrow> Inl e
      | Inr s \<Rightarrow> Inr (contains s ZERO))"

text \<open>\<^verbatim>\<open>intersect\<close> returns a vector or \<^verbatim>\<open>null\<close>; \<^verbatim>\<open>null\<close> is \<open>None\<close>.\<close>

definition intersect :: "Shape \<Rightarrow> Shape \<Rightarrow> string + Vector option" where
  "intersect this other =
     (case sum_shape this other of
        Inl e \<Rightarrow> Inl e
      | Inr s \<Rightarrow>
          if contains s ZERO then
            (let p = closestPoint s ZERO in Inr (Some p))
          else Inr None)"

definition solveCollisions :: "Shape \<Rightarrow> Shape \<Rightarrow> num \<Rightarrow> string + Shape \<times> Shape" where
  "solveCollisions this other dt =
     (case sum_shape other this of
        Inl e \<Rightarrow> Inl e
      | Inr s \<Rightarrow>
          if contains s ZERO then
            (let p = closestPoint s ZERO
             in Inr (set_center this (Vector_add (center this) p), other))
          else
            (let relativeMotion = Vector_sub (velocity this) (velocity other);
                 h = rayCast s ZERO relativeMotion
             in if h < PInf then
                  Inr (set_center this
                         (Vector_add (center this) (Vector_mul (velocity this) (dt * h))),
                       set_center other
                         (Vector_add (center other) (Vector_mul (velocity other) (dt * h))))
                else
                  Inr (set_center this
                         (Vector_add (center this) (Vector_mul (velocity this) dt)),
                       set_center other
                         (Vector_add (center other) (Vector_mul (velocity other) dt)))))"

section \<open>Finite vectors and the unit interval\<close>

text \<open>
  \<open>fin_vec\<close> is the vector with the two finite coordinates of a pair of reals; \<open>sub2\<close>,
  \<open>dot2\<close> and \<open>cross2\<close> are the difference and the two products on such pairs.
  \<open>in_unit t\<close> is the test \<^verbatim>\<open>(t >= 0) && (t <= 1)\<close>, which is how \<open>rayCastCircle\<close> decides
  that a root lies in \<open>[0, 1]\<close>; it is false for NaN and for the infinities.
\<close>

definition fin_vec :: "real \<times> real \<Rightarrow> Vector" where
  "fin_vec p = Vector (Fin (fst p)) (Fin (snd p))"

definition sub2 :: "real \<times> real \<Rightarrow> real \<times> real \<Rightarrow> real \<times> real" where
  "sub2 a b = (fst a - fst b, snd a - snd b)"

definition dot2 :: "real \<times> real \<Rightarrow> real \<times> real \<Rightarrow> real" where
  "dot2 a b = fst a * fst b + snd a * snd b"

definition cross2 :: "real \<times> real \<Rightarrow> real \<times> real \<Rightarrow> real" where
  "cross2 a b = fst a * snd b - snd a * fst b"

definition in_unit :: "num \<Rightarrow> bool" where
  "in_unit t = (t \<ge> Fin 0 \<and> t \<le> Fin 1)"

section \<open>The tangential response as the specification words it\<close>

text \<open>
  The specification gives the velocity after a hit as \<open>dot(v, tangent) * tangent\<close>, with
  \<open>tangent\<close> the perpendicular of the normalized relative motion. This is that formula; it
  is compared with what \<open>solveCollisions\<close> stores below.
\<close>

definition tangent_response_spec :: "Vector \<Rightarrow> Vector \<Rightarrow> Vector" where
  "tangent_response_spec v relativeMotion =
     (let t = tangent (normalized relativeMotion)
      in Vector_mul t (Vector_dot v t))"

section \<open>Arithmetic on finite numbers\<close>

lemma minus_Fin [simp]: "Fin a - Fin b = Fin (a - b)"
  by (simp add: minus_num_def)

lemma js_eq_Fin [simp]: "js_eq (Fin a) (Fin b) = (a = b)"
  by (simp add: js_eq_def)

lemma Math_min_Fin [simp]: "Math_min (Fin a) (Fin b) = Fin (min a b)"
  by (simp add: Math_min_def min_def)

lemma Math_max_Fin [simp]: "Math_max (Fin a) (Fin b) = Fin (max a b)"
  by (simp add: Math_max_def max_def)

lemma plus_num_commute: "(a::num) + b = b + a"
  by (cases a; cases b) simp_all

lemma Vector_sub_fin [simp]: "Vector_sub (fin_vec a) (fin_vec b) = fin_vec (sub2 a b)"
  by (simp add: Vector_sub_def fin_vec_def sub2_def)

lemma Vector_cross_fin [simp]: "Vector_cross (fin_vec a) (fin_vec b) = Fin (cross2 a b)"
  by (simp add: Vector_cross_def fin_vec_def cross2_def)

lemma Vector_dot_fin [simp]: "Vector_dot (fin_vec a) (fin_vec b) = Fin (dot2 a b)"
  by (simp add: Vector_dot_def fin_vec_def dot2_def)

lemma center_set_center [simp]: "center (set_center s c) = c"
  by (cases s) simp_all

lemma velocity_set_center [simp]: "velocity (set_center s c) = velocity s"
  by (cases s) simp_all

lemma sum_squares_not_neg [simp]: "\<not> a * a + b * b < (0::real)"
  by (simp add: not_less)

text \<open>The definitions that an evaluation at a concrete input unfolds.\<close>

lemmas vector_defs = Vector_add_def Vector_sub_def Vector_mul_def Vector_dot_def
  Vector_cross_def Vector_max_def Vector_min_def Vector_abs_def Vector_length_def
  ZERO_def fin_vec_def

lemmas shape_defs = new_Circle_def new_RoundRect_def new_AABB_def
  left_def right_def top_shape_def bottom_def leftTop_def leftBottom_def rightTop_def
  rightBottom_def

lemmas method_defs = Circle_contains_def RoundRect_contains_def AABB_contains_def
  Circle_closestPoint_def RoundRect_closestPoint_def AABB_closestPoint_def
  Circle_rayCast_def RoundRect_rayCast_def AABB_rayCast_def keep_min_def

section \<open>The ray casts\<close>

text \<open>
  What \<open>rayCastEdge\<close> returns, for every argument: \<open>+\<infinity>\<close> when \<open>det\<close> is zero or one
  of the four tests \<^verbatim>\<open>0 > t1\<close>, \<^verbatim>\<open>t1 > 1\<close>, \<^verbatim>\<open>0 > t2\<close>, \<^verbatim>\<open>t2 > 1\<close> holds, and \<open>t1\<close> in
  every other case.
\<close>

lemma rayCastEdge_cases:
  "rayCastEdge originA endA originB endB =
     (let r = Vector_sub endA originA;
          s = Vector_sub endB originB;
          det = Vector_cross r s;
          dir = Vector_sub originB originA;
          t1 = Vector_cross dir s / det;
          t2 = Vector_cross dir r / det
      in if js_eq det (Fin 0) then PInf
         else if t1 < Fin 0 \<or> Fin 1 < t1 \<or> t2 < Fin 0 \<or> Fin 1 < t2 then PInf
         else t1)"
  by (simp add: rayCastEdge_def Let_def)

text \<open>
  When neither \<open>t1\<close> nor \<open>t2\<close> is NaN, the four tests say exactly that one of them lies
  outside \<open>[0, 1]\<close>, and \<open>rayCastEdge\<close> returns \<open>t1\<close> when both lie inside and \<open>+\<infinity>\<close>
  when not.
\<close>

lemma not_outside_iff: "t \<noteq> NaN \<Longrightarrow> (\<not> (t < Fin 0 \<or> Fin 1 < t)) = in_unit t"
  by (cases t) (auto simp: in_unit_def)

lemma rayCastEdge_without_NaN:
  assumes "Vector_cross (Vector_sub originB originA) (Vector_sub endB originB)
             / Vector_cross (Vector_sub endA originA) (Vector_sub endB originB) \<noteq> NaN"
    and "Vector_cross (Vector_sub originB originA) (Vector_sub endA originA)
             / Vector_cross (Vector_sub endA originA) (Vector_sub endB originB) \<noteq> NaN"
  shows "rayCastEdge originA endA originB endB =
     (let r = Vector_sub endA originA;
          s = Vector_sub endB originB;
          det = Vector_cross r s;
          dir = Vector_sub originB originA;
          t1 = Vector_cross dir s / det;
          t2 = Vector_cross dir r / det
      in if js_eq det (Fin 0) then PInf
         else if in_unit t1 \<and> in_unit t2 then t1
         else PInf)"
  using assms by (simp add: rayCastEdge_cases Let_def not_outside_iff [symmetric])

text \<open>
  C3. The property: \<open>rayCastEdge\<close> (rayCastSegment in the specification) returns
  \<open>+\<infinity>\<close> when \<open>det\<close> is zero, and otherwise returns \<open>t1\<close> when both \<open>t1\<close> and \<open>t2\<close>
  lie in \<open>[0, 1]\<close> and \<open>+\<infinity>\<close> when they do not. The program misses the case of a
  parameter that is NaN: its tests \<^verbatim>\<open>0 > t || t > 1\<close> are false for NaN, so NaN counts as
  inside, where the test \<^verbatim>\<open>(t >= 0) && (t <= 1)\<close> of \<open>rayCastCircle\<close> rejects it. For the
  segment from \<open>(0, 0)\<close> to \<open>(\<infinity>, 0)\<close>, along the x axis, against the segment from
  \<open>(5, 1)\<close> to \<open>(5, 2)\<close>, which the axis does not meet, the program computes
  \<open>det = \<infinity>\<close>, \<open>t1 = 5 / \<infinity> = 0\<close> and \<open>t2 = -\<infinity> / \<infinity> = NaN\<close> and returns the hit \<open>0\<close>;
  with a NaN coordinate it returns NaN, which is neither \<open>+\<infinity>\<close> nor in \<open>[0, 1]\<close>.
\<close>

theorem rayCastEdge_nan_evaluated:
  "Vector_cross (Vector_sub (Vector PInf (Fin 0)) (fin_vec (0, 0)))
      (Vector_sub (fin_vec (5, 2)) (fin_vec (5, 1))) = PInf
   \<and> Vector_cross (Vector_sub (fin_vec (5, 1)) (fin_vec (0, 0)))
        (Vector_sub (fin_vec (5, 2)) (fin_vec (5, 1))) / PInf = Fin 0
   \<and> Vector_cross (Vector_sub (fin_vec (5, 1)) (fin_vec (0, 0)))
        (Vector_sub (Vector PInf (Fin 0)) (fin_vec (0, 0))) / PInf = NaN
   \<and> rayCastEdge (fin_vec (0, 0)) (Vector PInf (Fin 0)) (fin_vec (5, 1)) (fin_vec (5, 2))
      = Fin 0
   \<and> rayCastEdge (Vector NaN (Fin 0)) (fin_vec (1, 0)) (fin_vec (0, - 1)) (fin_vec (0, 1))
      = NaN"
  by (simp add: rayCastEdge_def vector_defs minus_num_def js_eq_def Let_def)

text \<open>The test \<open>in_unit\<close> holds of the finite numbers between 0 and 1 and of nothing else.\<close>

lemma in_unit_iff: "in_unit t \<longleftrightarrow> (\<exists>x. t = Fin x \<and> 0 \<le> x \<and> x \<le> 1)"
  by (cases t) (simp_all add: in_unit_def)

lemma Math_min_in_unit:
  assumes "in_unit t1" and "in_unit t2"
  shows "(Math_min t1 t2 = t1 \<or> Math_min t1 t2 = t2)
     \<and> Math_min t1 t2 \<le> t1 \<and> Math_min t1 t2 \<le> t2"
proof -
  from assms obtain x y where "t1 = Fin x" "t2 = Fin y"
    by (auto simp: in_unit_iff)
  then show ?thesis
    by (simp add: min_def)
qed

text \<open>
  C4. For all arguments, finite or not, with \<open>a\<close>, \<open>b\<close>, \<open>c\<close>, the discriminant \<open>det\<close>
  and the roots as the program computes them: \<open>rayCastCircle\<close> returns \<open>+\<infinity>\<close> when
  \<open>a = dot direction direction \<le> \<epsilon>\<close> or \<open>det < 0\<close>; if not, and \<open>det\<close> is zero, it returns
  the single root \<open>-b / 2a\<close> if that root lies in \<open>[0, 1]\<close> and \<open>+\<infinity>\<close> otherwise; in the
  remaining case it returns the smaller of the two roots when both lie in \<open>[0, 1]\<close>, the
  one root in range (be it the larger) when only one does, and \<open>+\<infinity>\<close> when none does.
  A root that is NaN is not in range. The proof uses no property of the arithmetic, only
  the order of the tests.
\<close>

theorem rayCastCircle_cases:
  "(let a = Vector_dot direction direction;
        centerToOrigin = Vector_sub origin ctr;
        b = Fin 2 * Vector_dot direction centerToOrigin;
        c = Vector_dot centerToOrigin centerToOrigin - rad * rad;
        det = b * b - Fin 4 * a * c;
        t = (- b) / (Fin 2 * a);
        t1 = (- b + Math_sqrt det) / (Fin 2 * a);
        t2 = (- b - Math_sqrt det) / (Fin 2 * a);
        result = rayCastCircle origin direction ctr rad
    in (a \<le> EPSILON \<or> det < Fin 0 \<longrightarrow> result = PInf)
     \<and> (\<not> (a \<le> EPSILON \<or> det < Fin 0) \<and> js_eq det (Fin 0) \<longrightarrow>
          result = (if in_unit t then t else PInf))
     \<and> (\<not> (a \<le> EPSILON \<or> det < Fin 0) \<and> \<not> js_eq det (Fin 0) \<longrightarrow>
          (in_unit t1 \<and> in_unit t2 \<longrightarrow>
             result = Math_min t1 t2 \<and> (result = t1 \<or> result = t2)
             \<and> result \<le> t1 \<and> result \<le> t2)
        \<and> (in_unit t1 \<and> \<not> in_unit t2 \<longrightarrow> result = t1)
        \<and> (\<not> in_unit t1 \<and> in_unit t2 \<longrightarrow> result = t2)
        \<and> (\<not> in_unit t1 \<and> \<not> in_unit t2 \<longrightarrow> result = PInf)))"
proof -
  define a where "a = Vector_dot direction direction"
  define b where "b = Fin 2 * Vector_dot direction (Vector_sub origin ctr)"
  define c where "c = Vector_dot (Vector_sub origin ctr) (Vector_sub origin ctr) - rad * rad"
  define det where "det = b * b - Fin 4 * a * c"
  define t where "t = (- b) / (Fin 2 * a)"
  define t1 where "t1 = (- b + Math_sqrt det) / (Fin 2 * a)"
  define t2 where "t2 = (- b - Math_sqrt det) / (Fin 2 * a)"
  define result where "result = rayCastCircle origin direction ctr rad"
  have r: "result =
      (if a \<le> EPSILON \<or> det < Fin 0 then PInf
       else if js_eq det (Fin 0) then (if in_unit t then t else PInf)
       else if in_unit t1 then (if in_unit t2 then Math_min t1 t2 else t1)
       else if in_unit t2 then t2 else PInf)"
    unfolding result_def rayCastCircle_def Let_def in_unit_def a_def b_def c_def det_def
      t_def t1_def t2_def
    by (rule refl)
  have m: "in_unit t1 \<and> in_unit t2 \<longrightarrow>
      (Math_min t1 t2 = t1 \<or> Math_min t1 t2 = t2)
      \<and> Math_min t1 t2 \<le> t1 \<and> Math_min t1 t2 \<le> t2"
    using Math_min_in_unit by blast
  have "(a \<le> EPSILON \<or> det < Fin 0 \<longrightarrow> result = PInf)
     \<and> (\<not> (a \<le> EPSILON \<or> det < Fin 0) \<and> js_eq det (Fin 0) \<longrightarrow>
          result = (if in_unit t then t else PInf))
     \<and> (\<not> (a \<le> EPSILON \<or> det < Fin 0) \<and> \<not> js_eq det (Fin 0) \<longrightarrow>
          (in_unit t1 \<and> in_unit t2 \<longrightarrow>
             result = Math_min t1 t2 \<and> (result = t1 \<or> result = t2)
             \<and> result \<le> t1 \<and> result \<le> t2)
        \<and> (in_unit t1 \<and> \<not> in_unit t2 \<longrightarrow> result = t1)
        \<and> (\<not> in_unit t1 \<and> in_unit t2 \<longrightarrow> result = t2)
        \<and> (\<not> in_unit t1 \<and> \<not> in_unit t2 \<longrightarrow> result = PInf))"
    using m by (simp add: r)
  then show ?thesis
    unfolding Let_def a_def b_def c_def det_def t_def t1_def t2_def result_def .
qed

theorem rayCastCircle_cases_witness:
  "\<not> (Fin 4 \<le> EPSILON \<or> Fin 16 < Fin 0) \<and> \<not> js_eq (Fin 16) (Fin 0)
   \<and> in_unit (Fin (1 / 2)) \<and> \<not> in_unit (Fin (- (1 / 2)))
   \<and> rayCastCircle (fin_vec (0, 0)) (fin_vec (2, 0)) (fin_vec (0, 0)) (Fin 1) = Fin (1 / 2)"
  using rayCastCircle_cases [of "fin_vec (2, 0)" "fin_vec (0, 0)" "fin_vec (0, 0)" "Fin 1"]
  by (simp add: Let_def sub2_def dot2_def EPSILON_def in_unit_def)

section \<open>Minkowski sums\<close>

text \<open>
  C5. For every pair of shapes other than two rounded rectangles, \<open>A.sum(B)\<close> returns a
  shape, and its center is \<open>A.center - B.center\<close>. These are the eight supported pairs.
\<close>

theorem sum_center:
  "\<not> (is_RoundRect A \<and> is_RoundRect B) \<Longrightarrow>
   \<exists>S. sum_shape A B = Inr S \<and> center S = Vector_sub (center A) (center B)"
  by (cases A; cases B) (simp_all add: new_Circle_def new_RoundRect_def new_AABB_def)

theorem sum_center_witness:
  "\<not> (is_RoundRect (new_Circle (fin_vec (200, 200)) (Fin 50))
        \<and> is_RoundRect (new_RoundRect (fin_vec (250, 250)) (Fin 50) (Fin 50) (Fin 20)))
   \<and> (\<exists>S. sum_shape (new_Circle (fin_vec (200, 200)) (Fin 50))
               (new_RoundRect (fin_vec (250, 250)) (Fin 50) (Fin 50) (Fin 20)) = Inr S
          \<and> center S = Vector_sub (center (new_Circle (fin_vec (200, 200)) (Fin 50)))
               (center (new_RoundRect (fin_vec (250, 250)) (Fin 50) (Fin 50) (Fin 20))))"
proof -
  have h: "\<not> (is_RoundRect (new_Circle (fin_vec (200, 200)) (Fin 50))
        \<and> is_RoundRect (new_RoundRect (fin_vec (250, 250)) (Fin 50) (Fin 50) (Fin 20)))"
    by (simp add: new_Circle_def)
  from h sum_center [OF h] show ?thesis by (rule conjI)
qed

text \<open>
  C8. Two rounded rectangles are the one pair of shapes without a formula: there \<open>sum\<close>
  throws the message that names both classes, and it throws for no other pair. Whatever
  \<open>sum\<close> throws is what \<open>intersects\<close>, \<open>intersect\<close> and \<open>solveCollisions\<close> (which
  calls \<open>other.sum(this)\<close>) throw in turn: none of them catches it or computes anything
  else.
\<close>

theorem sum_unimplemented:
  "(is_RoundRect A \<and> is_RoundRect B \<longrightarrow>
      sum_shape A B = Inl ''sum is not implemented for RoundRect and RoundRect'')
   \<and> (\<forall>e. sum_shape A B = Inl e \<longrightarrow>
      is_RoundRect A \<and> is_RoundRect B
      \<and> e = ''sum is not implemented for '' @ constructor_name A @ '' and ''
            @ constructor_name B
      \<and> intersects A B = Inl e \<and> intersect A B = Inl e
      \<and> solveCollisions B A dt = Inl e)"
  by (cases A; cases B)
     (auto simp: sum_not_implemented_def intersects_def intersect_def solveCollisions_def)

theorem sum_unimplemented_witness:
  "is_RoundRect (new_RoundRect (fin_vec (0, 0)) (Fin 2) (Fin 2) (Fin 1))
   \<and> is_RoundRect (new_RoundRect (fin_vec (5, 0)) (Fin 3) (Fin 2) (Fin 1))
   \<and> sum_shape (new_RoundRect (fin_vec (0, 0)) (Fin 2) (Fin 2) (Fin 1))
        (new_RoundRect (fin_vec (5, 0)) (Fin 3) (Fin 2) (Fin 1))
      = Inl ''sum is not implemented for RoundRect and RoundRect''
   \<and> solveCollisions (new_RoundRect (fin_vec (5, 0)) (Fin 3) (Fin 2) (Fin 1))
        (new_RoundRect (fin_vec (0, 0)) (Fin 2) (Fin 2) (Fin 1)) (Fin (1 / 3))
      = Inl ''sum is not implemented for RoundRect and RoundRect''"
proof -
  let ?A = "new_RoundRect (fin_vec (0, 0)) (Fin 2) (Fin 2) (Fin 1)"
  let ?B = "new_RoundRect (fin_vec (5, 0)) (Fin 3) (Fin 2) (Fin 1)"
  note t = sum_unimplemented [of ?A ?B "Fin (1 / 3)"]
  have a: "is_RoundRect ?A" and b: "is_RoundRect ?B"
    by (simp_all add: new_RoundRect_def)
  from t a b have s: "sum_shape ?A ?B = Inl ''sum is not implemented for RoundRect and RoundRect''"
    by blast
  from t s have "solveCollisions ?B ?A (Fin (1 / 3))
      = Inl ''sum is not implemented for RoundRect and RoundRect''"
    by blast
  with a b s show ?thesis by blast
qed

text \<open>
  C9. For two circles, and for a box with a rounded rectangle in either order, \<open>A.sum(B)\<close>
  and \<open>B.sum(A)\<close> both return a shape and the two shapes have the same radius.
\<close>

theorem sum_radius_symmetric:
  "is_Circle A \<and> is_Circle B \<or> is_AABB A \<and> is_RoundRect B \<or> is_RoundRect A \<and> is_AABB B \<Longrightarrow>
   \<exists>S T. sum_shape A B = Inr S \<and> sum_shape B A = Inr T \<and> radius S = radius T"
  by (cases A; cases B)
     (simp_all add: new_Circle_def new_RoundRect_def new_AABB_def plus_num_commute)

theorem sum_radius_symmetric_witness:
  "(is_Circle (new_AABB (fin_vec (1, 2)) (Fin 3) (Fin 4))
      \<and> is_Circle (new_RoundRect (fin_vec (5, 6)) (Fin 7) (Fin 8) (Fin 2))
    \<or> is_AABB (new_AABB (fin_vec (1, 2)) (Fin 3) (Fin 4))
      \<and> is_RoundRect (new_RoundRect (fin_vec (5, 6)) (Fin 7) (Fin 8) (Fin 2))
    \<or> is_RoundRect (new_AABB (fin_vec (1, 2)) (Fin 3) (Fin 4))
      \<and> is_AABB (new_RoundRect (fin_vec (5, 6)) (Fin 7) (Fin 8) (Fin 2)))
   \<and> (\<exists>S T. sum_shape (new_AABB (fin_vec (1, 2)) (Fin 3) (Fin 4))
                 (new_RoundRect (fin_vec (5, 6)) (Fin 7) (Fin 8) (Fin 2)) = Inr S
            \<and> sum_shape (new_RoundRect (fin_vec (5, 6)) (Fin 7) (Fin 8) (Fin 2))
                 (new_AABB (fin_vec (1, 2)) (Fin 3) (Fin 4)) = Inr T
            \<and> radius S = radius T)"
proof -
  have h: "is_Circle (new_AABB (fin_vec (1, 2)) (Fin 3) (Fin 4))
      \<and> is_Circle (new_RoundRect (fin_vec (5, 6)) (Fin 7) (Fin 8) (Fin 2))
    \<or> is_AABB (new_AABB (fin_vec (1, 2)) (Fin 3) (Fin 4))
      \<and> is_RoundRect (new_RoundRect (fin_vec (5, 6)) (Fin 7) (Fin 8) (Fin 2))
    \<or> is_RoundRect (new_AABB (fin_vec (1, 2)) (Fin 3) (Fin 4))
      \<and> is_AABB (new_RoundRect (fin_vec (5, 6)) (Fin 7) (Fin 8) (Fin 2))"
    by (simp add: new_AABB_def new_RoundRect_def)
  from h sum_radius_symmetric [OF h] show ?thesis by (rule conjI)
qed

section \<open>Containment and closest points\<close>

text \<open>
  C6. A rounded rectangle of the data model contains its own center: with a finite
  center, a finite radius \<open>radius > 0\<close> and half extents that satisfy the invariant
  \<open>radius \<le> min hw hh\<close> (so both are positive; they may be infinite), \<open>contains\<close> returns
  true at the center. There the offsets are \<open>-hw + radius \<le> 0\<close> and \<open>-hh + radius \<le> 0\<close>,
  the corner term is the length of the zero vector, and \<open>t \<le> -radius\<close>. Rounding
  keeps each of these steps: the center minus itself is zero, and a rounded sum of
  numbers whose exact sum is at most zero is at most zero.
\<close>

theorem RoundRect_contains_own_center:
  assumes "0 < r" and "Fin r \<le> w" and "Fin r \<le> h"
  shows "contains (RoundRect (fin_vec c) v w h (Fin r)) (fin_vec c)"
proof -
  from assms(2) consider (fin) x where "w = Fin x" "r \<le> x" | (inf) "w = PInf"
    by (cases w) simp_all
  then show ?thesis
  proof cases
    case fin
    from assms(3) consider (fin2) y where "h = Fin y" "r \<le> y" | (inf2) "h = PInf"
      by (cases h) simp_all
    then show ?thesis
    proof cases
      case fin2
      with fin assms(1) show ?thesis
        by (simp add: vector_defs shape_defs method_defs Let_def max_def min_def)
    next
      case inf2
      with fin assms(1) show ?thesis
        by (simp add: vector_defs shape_defs method_defs Let_def Math_max_def Math_min_def
            minus_num_def max_def min_def)
    qed
  next
    case inf
    from assms(3) consider (fin2) y where "h = Fin y" "r \<le> y" | (inf2) "h = PInf"
      by (cases h) simp_all
    then show ?thesis
    proof cases
      case fin2
      with inf assms(1) show ?thesis
        by (simp add: vector_defs shape_defs method_defs Let_def Math_max_def Math_min_def
            minus_num_def max_def min_def)
    next
      case inf2
      with inf assms(1) show ?thesis
        by (simp add: vector_defs shape_defs method_defs Let_def Math_max_def Math_min_def
            minus_num_def max_def min_def)
    qed
  qed
qed

theorem RoundRect_contains_own_center_witness:
  "(0::real) < 20 \<and> Fin 20 \<le> Fin 50 \<and> Fin 20 \<le> Fin 50
   \<and> contains (RoundRect (fin_vec (200, 200)) ZERO (Fin 50) (Fin 50) (Fin 20))
        (fin_vec (200, 200))"
proof -
  have r: "(0::real) < 20" and w: "Fin 20 \<le> Fin 50"
    by simp_all
  have "contains (RoundRect (fin_vec (200, 200)) ZERO (Fin 50) (Fin 50) (Fin 20))
          (fin_vec (200, 200))"
    by (rule RoundRect_contains_own_center [OF r w w])
  with r w show ?thesis by blast
qed

text \<open>
  The closest point of a circle: for a point other than the center it lies on the circle,
  at distance \<open>radius\<close> from the center.
\<close>

lemma Circle_closestPoint_on_circle:
  assumes "p \<noteq> c" and "0 \<le> r"
  shows "Vector_length (Vector_sub (closestPoint (Circle (fin_vec c) v (Fin r)) (fin_vec p))
           (fin_vec c)) = Fin r"
proof -
  obtain px py cx cy where pc: "p = (px, py)" "c = (cx, cy)"
    by (cases p, cases c) blast
  define dx where "dx = px - cx"
  define dy where "dy = py - cy"
  define len where "len = sqrt (dx * dx + dy * dy)"
  from assms(1) pc have "dx \<noteq> 0 \<or> dy \<noteq> 0"
    by (auto simp: dx_def dy_def)
  then have "dx * dx + dy * dy \<noteq> 0"
    by (metis add.commute mult_eq_0_iff sum_squares_eq_zero_iff)
  then have pos: "0 < len"
    unfolding len_def by (simp add: less_le)
  define kx where "kx = dx * (r / len)"
  define ky where "ky = dy * (r / len)"
  have cp: "closestPoint (Circle (fin_vec c) v (Fin r)) (fin_vec p)
      = Vector (Fin (cx + kx)) (Fin (cy + ky))"
    using assms(1)
    by (auto simp: pc vector_defs method_defs Let_def dx_def dy_def len_def kx_def ky_def)
  have "kx * kx + ky * ky = (dx * dx + dy * dy) * ((r / len) * (r / len))"
    by (simp add: kx_def ky_def algebra_simps add_divide_distrib)
  also have "dx * dx + dy * dy = len * len"
    unfolding len_def by simp
  also have "len * len * ((r / len) * (r / len)) = r * r"
    using pos by simp
  finally have sq: "kx * kx + ky * ky = r * r" .
  have "Vector_length (Vector_sub (Vector (Fin (cx + kx)) (Fin (cy + ky))) (fin_vec c))
      = Fin (sqrt (kx * kx + ky * ky))"
    by (simp add: pc vector_defs)
  also have "\<dots> = Fin r"
    using assms(2) by (simp add: sq)
  finally show ?thesis by (simp only: cp)
qed

text \<open>
  C7. The property: for every shape and every point strictly outside it, \<open>closestPoint\<close>
  returns a point on the boundary of the shape. The circle has it (above); the box and the
  rounded rectangle do not. \<open>AABB.closestPoint\<close> takes the nearest of the four lines through the sides and
  projects onto that line, which leaves the box when the point lies beyond a corner,
  as \<open>(5, 5)\<close> does for the box \<open>[-1, 1] \<times> [-1, 1]\<close>, or nearer to the line of another
  side, as \<open>(5, 0)\<close> does. \<open>RoundRect.closestPoint\<close> returns the point itself when its
  vertical offset is exactly \<open>hh - radius\<close> and it lies beyond the side: neither of the
  two tests for the straight sides holds there.
\<close>

theorem closestPoint_outside_evaluated:
  "\<not> contains (new_AABB (fin_vec (0, 0)) (Fin 1) (Fin 1)) (fin_vec (5, 5))
   \<and> closestPoint (new_AABB (fin_vec (0, 0)) (Fin 1) (Fin 1)) (fin_vec (5, 5)) = fin_vec (1, 5)
   \<and> \<not> contains (new_AABB (fin_vec (0, 0)) (Fin 1) (Fin 1)) (fin_vec (1, 5))
   \<and> \<not> contains (new_AABB (fin_vec (0, 0)) (Fin 1) (Fin 1)) (fin_vec (5, 0))
   \<and> closestPoint (new_AABB (fin_vec (0, 0)) (Fin 1) (Fin 1)) (fin_vec (5, 0)) = fin_vec (5, 1)
   \<and> \<not> contains (new_AABB (fin_vec (0, 0)) (Fin 1) (Fin 1)) (fin_vec (5, 1))
   \<and> \<not> contains (new_RoundRect (fin_vec (0, 0)) (Fin 2) (Fin 2) (Fin 1)) (fin_vec (5, 1))
   \<and> closestPoint (new_RoundRect (fin_vec (0, 0)) (Fin 2) (Fin 2) (Fin 1)) (fin_vec (5, 1))
       = fin_vec (5, 1)"
  by (simp add: vector_defs shape_defs method_defs)

section \<open>The solver\<close>

text \<open>
  C10. When \<open>A.sum(B)\<close> returns a shape \<open>S\<close>, \<open>intersect\<close> returns a vector exactly
  when \<open>intersects\<close> returns true, and a vector it returns is \<open>S.closestPoint(origin)\<close>.
\<close>

theorem intersect_iff_intersects:
  "sum_shape A B = Inr S \<Longrightarrow>
   ((\<exists>p. intersect A B = Inr (Some p)) \<longleftrightarrow> intersects A B = Inr True)
   \<and> (\<forall>p. intersect A B = Inr (Some p) \<longrightarrow> p = closestPoint S ZERO)"
  by (simp add: intersect_def intersects_def)

theorem intersect_iff_intersects_witness:
  "sum_shape (new_AABB (fin_vec (3, 0)) (Fin 2) (Fin 2)) (new_AABB (fin_vec (0, 0)) (Fin 2) (Fin 2))
     = Inr (new_AABB (fin_vec (3, 0)) (Fin 4) (Fin 4))
   \<and> intersects (new_AABB (fin_vec (3, 0)) (Fin 2) (Fin 2)) (new_AABB (fin_vec (0, 0)) (Fin 2) (Fin 2))
     = Inr True
   \<and> (\<exists>p. intersect (new_AABB (fin_vec (3, 0)) (Fin 2) (Fin 2))
             (new_AABB (fin_vec (0, 0)) (Fin 2) (Fin 2)) = Inr (Some p)
          \<and> p = closestPoint (new_AABB (fin_vec (3, 0)) (Fin 4) (Fin 4)) ZERO)"
proof -
  let ?A = "new_AABB (fin_vec (0, 0)) (Fin 2) (Fin 2)"
  let ?B = "new_AABB (fin_vec (3, 0)) (Fin 2) (Fin 2)"
  let ?S = "new_AABB (fin_vec (3, 0)) (Fin 4) (Fin 4)"
  have s: "sum_shape ?B ?A = Inr ?S"
    by (simp add: vector_defs shape_defs)
  have i: "intersects ?B ?A = Inr True"
    by (simp add: intersects_def vector_defs shape_defs method_defs)
  note t = intersect_iff_intersects [OF s]
  from t i obtain p where p: "intersect ?B ?A = Inr (Some p)" by blast
  with t have "p = closestPoint ?S ZERO" by blast
  with s i p show ?thesis by blast
qed

text \<open>
  C2. When \<open>S = B.sum(A)\<close> contains the origin, \<open>solveCollisions\<close> moves the center of
  \<open>A\<close> by \<open>S.closestPoint(origin)\<close> and changes nothing else: the velocity of \<open>A\<close> and
  the whole of \<open>B\<close> are as before.
\<close>

theorem solveCollisions_overlap:
  "sum_shape B A = Inr S \<Longrightarrow> contains S ZERO \<Longrightarrow>
   solveCollisions A B dt
     = Inr (set_center A (Vector_add (center A) (closestPoint S ZERO)), B)
   \<and> center (set_center A (Vector_add (center A) (closestPoint S ZERO)))
     = Vector_add (center A) (closestPoint S ZERO)
   \<and> velocity (set_center A (Vector_add (center A) (closestPoint S ZERO))) = velocity A"
  by (simp add: solveCollisions_def)

theorem solveCollisions_overlap_witness:
  "sum_shape (new_AABB (fin_vec (3, 0)) (Fin 2) (Fin 2)) (new_AABB (fin_vec (0, 0)) (Fin 2) (Fin 2))
     = Inr (new_AABB (fin_vec (3, 0)) (Fin 4) (Fin 4))
   \<and> contains (new_AABB (fin_vec (3, 0)) (Fin 4) (Fin 4)) ZERO
   \<and> solveCollisions (new_AABB (fin_vec (0, 0)) (Fin 2) (Fin 2))
        (new_AABB (fin_vec (3, 0)) (Fin 2) (Fin 2)) (Fin (1 / 3))
      = Inr (new_AABB (fin_vec (- 1, 0)) (Fin 2) (Fin 2), new_AABB (fin_vec (3, 0)) (Fin 2) (Fin 2))"
proof -
  let ?A = "new_AABB (fin_vec (0, 0)) (Fin 2) (Fin 2)"
  let ?B = "new_AABB (fin_vec (3, 0)) (Fin 2) (Fin 2)"
  let ?S = "new_AABB (fin_vec (3, 0)) (Fin 4) (Fin 4)"
  have s: "sum_shape ?B ?A = Inr ?S"
    by (simp add: vector_defs shape_defs)
  have c: "contains ?S ZERO"
    by (simp add: vector_defs shape_defs method_defs)
  have p: "set_center ?A (Vector_add (center ?A) (closestPoint ?S ZERO))
             = new_AABB (fin_vec (- 1, 0)) (Fin 2) (Fin 2)"
    by (simp add: vector_defs shape_defs method_defs)
  from solveCollisions_overlap [OF s c, of "Fin (1 / 3)"]
  have "solveCollisions ?A ?B (Fin (1 / 3))
     = Inr (set_center ?A (Vector_add (center ?A) (closestPoint ?S ZERO)), ?B)"
    by (rule conjunct1)
  with p have "solveCollisions ?A ?B (Fin (1 / 3))
     = Inr (new_AABB (fin_vec (- 1, 0)) (Fin 2) (Fin 2), ?B)"
    by simp
  with s c show ?thesis by blast
qed

text \<open>
  C1 as stated: when \<open>S = B.sum(A)\<close> does not contain the origin and the cast of the
  relative motion against \<open>S\<close> hits at a finite \<open>h\<close>, the centers advance by
  \<open>velocity * dt * h\<close> and each velocity becomes \<open>dot(velocity, tangent) * tangent\<close>.
  The last part fails: the assignments of the velocities are commented out in
  \<open>solveCollisions\<close>, so both velocities stay. For a unit circle at the origin moving
  at \<open>(2, 0)\<close> towards a resting unit circle at \<open>(3, 0)\<close> the hit is at \<open>h = 1/2\<close>; the
  velocity stays \<open>(2, 0)\<close>, where the formula gives \<open>(0, 0)\<close>.
\<close>

theorem solveCollisions_hit_counterexample:
  "sum_shape (Circle (fin_vec (3, 0)) (fin_vec (0, 0)) (Fin 1))
      (Circle (fin_vec (0, 0)) (fin_vec (2, 0)) (Fin 1))
     = Inr (Circle (fin_vec (3, 0)) ZERO (Fin 2))
   \<and> \<not> contains (Circle (fin_vec (3, 0)) ZERO (Fin 2)) ZERO
   \<and> rayCast (Circle (fin_vec (3, 0)) ZERO (Fin 2)) ZERO
        (Vector_sub (fin_vec (2, 0)) (fin_vec (0, 0))) = Fin (1 / 2)
   \<and> solveCollisions (Circle (fin_vec (0, 0)) (fin_vec (2, 0)) (Fin 1))
        (Circle (fin_vec (3, 0)) (fin_vec (0, 0)) (Fin 1)) (Fin (1 / 2))
      = Inr (Circle (fin_vec (1 / 2, 0)) (fin_vec (2, 0)) (Fin 1),
             Circle (fin_vec (3, 0)) (fin_vec (0, 0)) (Fin 1))
   \<and> tangent_response_spec (fin_vec (2, 0)) (Vector_sub (fin_vec (2, 0)) (fin_vec (0, 0)))
      = fin_vec (0, 0)
   \<and> velocity (Circle (fin_vec (1 / 2, 0)) (fin_vec (2, 0)) (Fin 1))
      \<noteq> tangent_response_spec (fin_vec (2, 0))
          (Vector_sub (fin_vec (2, 0)) (fin_vec (0, 0)))"
  by (simp add: vector_defs shape_defs method_defs solveCollisions_def rayCastCircle_def
      EPSILON_def tangent_response_spec_def normalized_def tangent_def Let_def)

text \<open>
  C1 as amended: when \<open>S = B.sum(A)\<close> does not contain the origin, the relative motion
  \<open>A.velocity - B.velocity\<close> is cast from the origin against \<open>S\<close>; when the hit time
  \<open>h\<close> is below \<open>+\<infinity>\<close>, both centers advance by \<open>velocity * dt * h\<close> and both
  velocities keep their values.
\<close>

theorem solveCollisions_hit:
  assumes "sum_shape B A = Inr S"
    and "\<not> contains S ZERO"
    and "rayCast S ZERO (Vector_sub (velocity A) (velocity B)) = h"
    and "h < PInf"
  shows "solveCollisions A B dt
       = Inr (set_center A (Vector_add (center A) (Vector_mul (velocity A) (dt * h))),
              set_center B (Vector_add (center B) (Vector_mul (velocity B) (dt * h))))
     \<and> (\<exists>A' B'. solveCollisions A B dt = Inr (A', B')
          \<and> center A' = Vector_add (center A) (Vector_mul (velocity A) (dt * h))
          \<and> center B' = Vector_add (center B) (Vector_mul (velocity B) (dt * h))
          \<and> velocity A' = velocity A \<and> velocity B' = velocity B)"
proof -
  let ?A' = "set_center A (Vector_add (center A) (Vector_mul (velocity A) (dt * h)))"
  let ?B' = "set_center B (Vector_add (center B) (Vector_mul (velocity B) (dt * h)))"
  from assms have "solveCollisions A B dt = Inr (?A', ?B')"
    by (simp add: solveCollisions_def Let_def)
  then show ?thesis by simp
qed

theorem solveCollisions_hit_witness:
  "sum_shape (Circle (fin_vec (3, 0)) (fin_vec (0, 0)) (Fin 1))
      (Circle (fin_vec (0, 0)) (fin_vec (2, 0)) (Fin 1))
     = Inr (Circle (fin_vec (3, 0)) ZERO (Fin 2))
   \<and> \<not> contains (Circle (fin_vec (3, 0)) ZERO (Fin 2)) ZERO
   \<and> rayCast (Circle (fin_vec (3, 0)) ZERO (Fin 2)) ZERO
        (Vector_sub (velocity (Circle (fin_vec (0, 0)) (fin_vec (2, 0)) (Fin 1)))
           (velocity (Circle (fin_vec (3, 0)) (fin_vec (0, 0)) (Fin 1)))) = Fin (1 / 2)
   \<and> Fin (1 / 2) < PInf
   \<and> (\<exists>A' B'. solveCollisions (Circle (fin_vec (0, 0)) (fin_vec (2, 0)) (Fin 1))
          (Circle (fin_vec (3, 0)) (fin_vec (0, 0)) (Fin 1)) (Fin (1 / 2)) = Inr (A', B')
        \<and> center A' = fin_vec (1 / 2, 0) \<and> center B' = fin_vec (3, 0)
        \<and> velocity A' = fin_vec (2, 0) \<and> velocity B' = fin_vec (0, 0))"
proof -
  let ?A = "Circle (fin_vec (0, 0)) (fin_vec (2, 0)) (Fin 1)"
  let ?B = "Circle (fin_vec (3, 0)) (fin_vec (0, 0)) (Fin 1)"
  let ?S = "Circle (fin_vec (3, 0)) ZERO (Fin 2)"
  have s: "sum_shape ?B ?A = Inr ?S"
    by (simp add: vector_defs shape_defs)
  have c: "\<not> contains ?S ZERO"
    by (simp add: vector_defs shape_defs method_defs)
  have r: "rayCast ?S ZERO (Vector_sub (velocity ?A) (velocity ?B)) = Fin (1 / 2)"
    by (simp add: vector_defs shape_defs method_defs rayCastCircle_def EPSILON_def Let_def)
  have f: "Fin (1 / 2) < PInf"
    by simp
  have a: "Vector_add (center ?A) (Vector_mul (velocity ?A) (Fin (1 / 2) * Fin (1 / 2)))
        = fin_vec (1 / 2, 0)"
    by (simp add: vector_defs)
  have b: "Vector_add (center ?B) (Vector_mul (velocity ?B) (Fin (1 / 2) * Fin (1 / 2)))
        = fin_vec (3, 0)"
    by (simp add: vector_defs)
  from solveCollisions_hit [OF s c r f, of "Fin (1 / 2)"] a b
  have "\<exists>A' B'. solveCollisions ?A ?B (Fin (1 / 2)) = Inr (A', B')
        \<and> center A' = fin_vec (1 / 2, 0) \<and> center B' = fin_vec (3, 0)
        \<and> velocity A' = fin_vec (2, 0) \<and> velocity B' = fin_vec (0, 0)"
    by simp
  with s c r f show ?thesis by blast
qed

end
